theory Spec2Isabelle
  imports Main "HOL-Library.Word" "HOL-Library.Sublist"
begin

section \<open>Data model of \<^verbatim>\<open>cmd/main.go\<close>\<close>

text \<open>
  The program is \<^verbatim>\<open>cmd/main.go\<close>, the file that the Makefile builds. Its Poller (\<^verbatim>\<open>loop\<close>
  with \<^verbatim>\<open>query\<close>) and its Notifier (\<^verbatim>\<open>notification\<close>) are sequential code around a
  \<^verbatim>\<open>select\<close>; each is modelled as a function of what its \<^verbatim>\<open>select\<close> receives and of what
  the world answers, and \<^verbatim>\<open>main\<close> as the decision it takes before it starts them.

  Go's \<^verbatim>\<open>int64\<close> is a 64-bit word read as two's complement (\<open>sint\<close>). The program is
  built for \<^verbatim>\<open>GOARCH=amd64\<close>, so Go's \<^verbatim>\<open>int\<close> has the same width. A \<^verbatim>\<open>float64\<close> is
  kept as its IEEE 754 bit pattern; the program never computes with one, it only hands
  it to \<^verbatim>\<open>fmt.Sprintf\<close>.
\<close>

type_synonym int64 = "64 word"

datatype float64 = Float64frombits "64 word"

record Event =
  EventId :: int64
  Updates :: int64
  Latitude :: float64
  Longitude :: float64
  Depth :: float64
  Epicenter :: string
  StartAt :: int64
  UpdateAt :: int64
  Magnitude :: float64
  InsideNet :: int64
  Sations :: int64

record Response =
  Code :: int64
  Message :: string
  Data :: "Event list"

text \<open>A Go \<^verbatim>\<open>error\<close> value, known by its message only.\<close>

datatype error = Error string

text \<open>
  What the outside world answers to one HTTP GET, in the order in which the program
  can fail on it: \<^verbatim>\<open>http.NewRequestWithContext\<close>, \<^verbatim>\<open>client.Do\<close>, \<^verbatim>\<open>io.ReadAll\<close>; or the
  bytes of the body.
\<close>

datatype http_outcome =
    NewRequestErr error
  | DoErr error
  | ReadAllErr error
  | Body string

text \<open>The lines written with \<^verbatim>\<open>slog\<close>, one constructor per call site.\<close>

datatype log_entry =
    QueryData error
  | FoundTheEvents nat "Event list"
  | OutOfDate int Event
  | LoopExiting
  | NotificationSuccessfully string
  | SendNotificationFailed error
  | NotificationExiting
  | Exiting

section \<open>The standard library, as far as the program uses it\<close>

text \<open>\<^verbatim>\<open>%d\<close> of \<^verbatim>\<open>fmt.Sprintf\<close> on an integer: decimal digits, a minus sign when negative.\<close>

fun dec_nat :: "nat \<Rightarrow> string" where
  "dec_nat n =
     (if n < 10 then [char_of (48 + n)]
      else dec_nat (n div 10) @ [char_of (48 + n mod 10)])"

declare dec_nat.simps [simp del]

definition fmt_d :: "int \<Rightarrow> string" where
  "fmt_d i = (if i < 0 then CHR ''-'' # dec_nat (nat (- i)) else dec_nat (nat i))"

text \<open>
  An instant is a number of nanoseconds since the Unix epoch. \<^verbatim>\<open>time.Time\<close> keeps seconds
  and nanoseconds apart, so every \<^verbatim>\<open>int64\<close> of milliseconds is an instant without
  rounding or wrap-around. A \<^verbatim>\<open>time.Duration\<close> is an \<^verbatim>\<open>int64\<close> of nanoseconds, and
  \<^verbatim>\<open>Time.Sub\<close> returns the largest or the smallest duration when the difference does not
  fit. \<^verbatim>\<open>time.Since t\<close> is \<^verbatim>\<open>time.Now().Sub(t)\<close>; the reading of the wall clock is an
  argument here.
\<close>

definition UnixMilli :: "int64 \<Rightarrow> int" where
  "UnixMilli msec = sint msec * 1000000"

definition maxDuration :: int where
  "maxDuration = 2 ^ 63 - 1"

definition minDuration :: int where
  "minDuration = - (2 ^ 63)"

definition Sub :: "int \<Rightarrow> int \<Rightarrow> int" where
  "Sub t u =
     (if t - u > maxDuration then maxDuration
      else if t - u < minDuration then minDuration
      else t - u)"

definition Since :: "int \<Rightarrow> int \<Rightarrow> int" where
  "Since now t = Sub now t"

definition Second :: int where
  "Second = 1000000000"

definition Minute :: int where
  "Minute = 60 * Second"

section \<open>The Poller: \<^verbatim>\<open>query\<close> and \<^verbatim>\<open>loop\<close>\<close>

definition feed_url :: "int64 \<Rightarrow> string" where
  "feed_url lastTs =
     ''https://mobile-new.chinaeew.cn/v1/earlywarnings?start_at='' @ fmt_d (sint lastTs)
       @ ''&updates=4''"

text \<open>
  \<^verbatim>\<open>query[T]\<close> returns \<^verbatim>\<open>(*T, error)\<close>: \<open>Inl\<close> is a non-nil error, \<open>Inr\<close> the pointer, \<open>None\<close>
  for nil. \<open>unmarshal\<close> is \<^verbatim>\<open>json.Unmarshal\<close> into a fresh \<^verbatim>\<open>T\<close>, \<open>http\<close> the answer of
  the world to a GET of the given URL.
\<close>

definition query ::
  "(string \<Rightarrow> error + 'r) \<Rightarrow> (string \<Rightarrow> http_outcome) \<Rightarrow> int64 \<Rightarrow> error + 'r option" where
  "query unmarshal http lastTs =
     (case http (feed_url lastTs) of
        NewRequestErr err \<Rightarrow> Inl err
      | DoErr err \<Rightarrow> Inl err
      | ReadAllErr err \<Rightarrow> Inl err
      | Body data \<Rightarrow>
          (case unmarshal data of
             Inl err \<Rightarrow> Inl err
           | Inr resp \<Rightarrow> Inr (Some resp)))"

text \<open>
  The state of \<^verbatim>\<open>loop\<close>: the cursor \<^verbatim>\<open>lastTs\<close>, the events sent on the channel so far
  (oldest first) and the log. The channel is unbuffered; a send is recorded when the
  statement \<^verbatim>\<open>notification <- resp.Data[0]\<close> is executed.
\<close>

record loop_state =
  lastTs :: int64
  sent :: "Event list"
  logs :: "log_entry list"

text \<open>The body of the \<^verbatim>\<open>case <-ticker.C\<close> branch; \<open>now\<close> is the clock read by \<^verbatim>\<open>time.Since\<close>.\<close>

definition tick ::
  "(string \<Rightarrow> error + Response) \<Rightarrow> (string \<Rightarrow> http_outcome) \<Rightarrow> int \<Rightarrow> loop_state
     \<Rightarrow> loop_state" where
  "tick unmarshal http now s =
     (case query unmarshal http (lastTs s) of
        Inl err \<Rightarrow> s\<lparr>logs := logs s @ [QueryData err]\<rparr>
      | Inr resp \<Rightarrow>
          (case resp of
             None \<Rightarrow> s
           | Some r \<Rightarrow>
               if length (Data r) > 0 then
                 let s1 = s\<lparr>logs := logs s @ [FoundTheEvents (length (Data r)) (Data r)]\<rparr>;
                     s2 = s1\<lparr>lastTs := StartAt (Data r ! 0)\<rparr>;
                     tt = UnixMilli (lastTs s2)
                 in if Since now tt \<le> 30 * Minute
                    then s2\<lparr>sent := sent s2 @ [Data r ! 0]\<rparr>
                    else s2\<lparr>logs := logs s2 @ [OutOfDate tt (Data r ! 0)]\<rparr>
               else s))"

text \<open>
  What the \<^verbatim>\<open>select\<close> of \<^verbatim>\<open>loop\<close> receives: a tick, with the world's answer to the fetch
  and the clock, or the cancellation of the context.
\<close>

datatype loop_input =
    TickerC "string \<Rightarrow> http_outcome" int
  | CtxDone

datatype status = Running | Returned

text \<open>
  \<^verbatim>\<open>loop\<close> runs \<^verbatim>\<open>for { select { ... } }\<close> and returns only on cancellation. It is run here
  on the list of what its \<^verbatim>\<open>select\<close> receives: the result says whether it has returned
  or waits for more.
\<close>

fun loop_from ::
  "(string \<Rightarrow> error + Response) \<Rightarrow> loop_state \<Rightarrow> loop_input list \<Rightarrow> status \<times> loop_state" where
  "loop_from unmarshal s [] = (Running, s)"
| "loop_from unmarshal s (CtxDone # rest) = (Returned, s\<lparr>logs := logs s @ [LoopExiting]\<rparr>)"
| "loop_from unmarshal s (TickerC http now # rest) =
     loop_from unmarshal (tick unmarshal http now s) rest"

definition loop :: "(string \<Rightarrow> error + Response) \<Rightarrow> loop_input list \<Rightarrow> status \<times> loop_state" where
  "loop unmarshal inputs = loop_from unmarshal \<lparr>lastTs = 0, sent = [], logs = []\<rparr> inputs"

text \<open>The cursor after each tick of a run, starting with the cursor the run starts from.\<close>

fun cursors ::
  "(string \<Rightarrow> error + Response) \<Rightarrow> loop_state \<Rightarrow> loop_input list \<Rightarrow> int64 list" where
  "cursors unmarshal s [] = [lastTs s]"
| "cursors unmarshal s (CtxDone # rest) = [lastTs s]"
| "cursors unmarshal s (TickerC http now # rest) =
     lastTs s # cursors unmarshal (tick unmarshal http now s) rest"

section \<open>The Notifier: \<^verbatim>\<open>notification\<close>\<close>

text \<open>
  The two format strings of the alert hold Chinese text. A Go string is its UTF-8 bytes,
  and so is a \<open>string\<close> here; each piece of the format strings between two verbs is
  one constant, named by its meaning.
\<close>

definition has_quake :: string where
  \<comment> \<open>a space, then U+6709: "there is a"\<close>
  "has_quake =
     [CHR 0x20, CHR 0xE6, CHR 0x9C, CHR 0x89]"

definition magnitude_quake_happened :: string where
  \<comment> \<open>U+7EA7 U+5730 U+9707 U+53D1 U+751F U+4E86: "magnitude earthquake happened"\<close>
  "magnitude_quake_happened =
     [CHR 0xE7, CHR 0xBA, CHR 0xA7, CHR 0xE5, CHR 0x9C, CHR 0xB0, CHR 0xE9, CHR 0x9C,
      CHR 0x87, CHR 0xE5, CHR 0x8F, CHR 0x91, CHR 0xE7, CHR 0x94, CHR 0x9F, CHR 0xE4,
      CHR 0xBA, CHR 0x86]"

definition place_label :: string where
  \<comment> \<open>U+5730 U+70B9 and a colon: "place:"\<close>
  "place_label =
     [CHR 0xE5, CHR 0x9C, CHR 0xB0, CHR 0xE7, CHR 0x82, CHR 0xB9, CHR 0x3A]"

definition east_longitude_label :: string where
  \<comment> \<open>a comma, U+4E1C U+7ECF and a colon: ",east longitude:"\<close>
  "east_longitude_label =
     [CHR 0x2C, CHR 0xE4, CHR 0xB8, CHR 0x9C, CHR 0xE7, CHR 0xBB, CHR 0x8F, CHR 0x3A]"

definition north_latitude_label :: string where
  \<comment> \<open>U+00B0, a comma, U+5317 U+7EAC and a colon: "degrees,north latitude:"\<close>
  "north_latitude_label =
     [CHR 0xC2, CHR 0xB0, CHR 0x2C, CHR 0xE5, CHR 0x8C, CHR 0x97, CHR 0xE7, CHR 0xBA,
      CHR 0xAC, CHR 0x3A]"

definition depth_label :: string where
  \<comment> \<open>U+00B0, a comma, U+5730 U+9707 U+6DF1 U+5EA6 and a colon: "degrees,depth:"\<close>
  "depth_label =
     [CHR 0xC2, CHR 0xB0, CHR 0x2C, CHR 0xE5, CHR 0x9C, CHR 0xB0, CHR 0xE9, CHR 0x9C,
      CHR 0x87, CHR 0xE6, CHR 0xB7, CHR 0xB1, CHR 0xE5, CHR 0xBA, CHR 0xA6, CHR 0x3A]"

definition kilometres :: string where
  \<comment> \<open>U+516C U+91CC: "kilometres"\<close>
  "kilometres =
     [CHR 0xE5, CHR 0x85, CHR 0xAC, CHR 0xE9, CHR 0x87, CHR 0x8C]"

text \<open>A loaded \<^verbatim>\<open>*time.Location\<close>, known by the name of its zone.\<close>

datatype location = Location string

text \<open>
  The renderers of the standard library that the alert text goes through. They are
  functions of their arguments alone and are taken as parameters:
  \<^item> \<open>Format tz layout t\<close> is \<^verbatim>\<open>t.In(tz).Format(layout)\<close> for the instant \<open>t\<close>;
  \<^item> \<open>verb_1f x\<close> is what \<^verbatim>\<open>%.1f\<close> prints for \<open>x\<close>, \<open>verb_f x\<close> what \<^verbatim>\<open>%f\<close> prints.
\<close>

record renderers =
  Format :: "location \<Rightarrow> string \<Rightarrow> int \<Rightarrow> string"
  verb_1f :: "float64 \<Rightarrow> string"
  verb_f :: "float64 \<Rightarrow> string"

definition DateTime :: string where
  "DateTime = ''2006-01-02 15:04:05''"

text \<open>
  What the world answers while one event is dispatched: \<^verbatim>\<open>time.LoadLocation\<close> for a zone
  name, and the HTTP GET of a URL.
\<close>

record world =
  LoadLocation :: "string \<Rightarrow> error + location"
  get :: "string \<Rightarrow> http_outcome"

text \<open>The three \<^verbatim>\<open>fmt.Sprintf\<close> calls of \<^verbatim>\<open>fn\<close>: the title, the body and the URL.\<close>

definition title :: "renderers \<Rightarrow> location \<Rightarrow> Event \<Rightarrow> string" where
  "title lib tz event =
     Format lib tz DateTime (UnixMilli (StartAt event)) @ has_quake
       @ verb_1f lib (Magnitude event) @ magnitude_quake_happened"

definition body :: "renderers \<Rightarrow> Event \<Rightarrow> string" where
  "body lib event =
     place_label @ Epicenter event @ east_longitude_label @ verb_f lib (Longitude event)
       @ north_latitude_label @ verb_f lib (Latitude event)
       @ depth_label @ verb_1f lib (Depth event) @ kilometres"

definition push_url :: "renderers \<Rightarrow> string \<Rightarrow> location \<Rightarrow> Event \<Rightarrow> string" where
  "push_url lib key tz event =
     ''https://api.day.app/'' @ key @ ''/'' @ title lib tz event @ ''/'' @ body lib event"

text \<open>
  The state of \<^verbatim>\<open>notification\<close>: the URLs it has built a request for, and the log.
\<close>

record notification_state =
  requested :: "string list"
  nlogs :: "log_entry list"

text \<open>The closure \<^verbatim>\<open>fn\<close>; \<open>None\<close> is the nil error.\<close>

definition fn ::
  "renderers \<Rightarrow> string \<Rightarrow> world \<Rightarrow> Event \<Rightarrow> notification_state
     \<Rightarrow> error option \<times> notification_state" where
  "fn lib key w event s =
     (case LoadLocation w ''Asia/Shanghai'' of
        Inl err \<Rightarrow> (Some err, s)
      | Inr tz \<Rightarrow>
          let url = push_url lib key tz event;
              s1 = s\<lparr>requested := requested s @ [url]\<rparr>
          in (case get w url of
                NewRequestErr err \<Rightarrow> (Some err, s1)
              | DoErr err \<Rightarrow> (Some err, s1)
              | ReadAllErr err \<Rightarrow> (Some err, s1)
              | Body data \<Rightarrow>
                  (None, s1\<lparr>nlogs := nlogs s1 @ [NotificationSuccessfully data]\<rparr>)))"

text \<open>
  What the \<^verbatim>\<open>select\<close> of \<^verbatim>\<open>notification\<close> receives: an event from the channel, with the
  world as it is while that event is dispatched, or the cancellation of the context.
\<close>

datatype notification_input =
    Ch Event world
  | Done

fun notification_from ::
  "renderers \<Rightarrow> string \<Rightarrow> notification_state \<Rightarrow> notification_input list
     \<Rightarrow> status \<times> notification_state" where
  "notification_from lib key s [] = (Running, s)"
| "notification_from lib key s (Done # rest) =
     (Returned, s\<lparr>nlogs := nlogs s @ [NotificationExiting]\<rparr>)"
| "notification_from lib key s (Ch event w # rest) =
     (case fn lib key w event s of
        (Some err, s') \<Rightarrow>
          notification_from lib key (s'\<lparr>nlogs := nlogs s' @ [SendNotificationFailed err]\<rparr>) rest
      | (None, s') \<Rightarrow> notification_from lib key s' rest)"

definition notification ::
  "renderers \<Rightarrow> string \<Rightarrow> notification_input list \<Rightarrow> status \<times> notification_state" where
  "notification lib key inputs = notification_from lib key \<lparr>requested = [], nlogs = []\<rparr> inputs"

section \<open>Start-up: \<^verbatim>\<open>main\<close>\<close>

datatype goroutine = GoNotification | GoLoop

text \<open>
  \<^verbatim>\<open>main\<close> after \<^verbatim>\<open>flag.Parse\<close>, from the value of the \<^verbatim>\<open>-key\<close> flag and whether the
  interrupt has arrived: it panics, or it has started goroutines (in this order) and
  either waits on \<^verbatim>\<open>quit\<close> or has cancelled the context and logged its exit.
\<close>

datatype main_outcome =
    Panic string
  | AwaitingQuit "goroutine list"
  | Cancelled "goroutine list" "log_entry list"

definition main :: "string \<Rightarrow> bool \<Rightarrow> main_outcome" where
  "main key interrupt =
     (if key = '''' then Panic ''key should have a value''
      else if interrupt then Cancelled [GoNotification, GoLoop] [Exiting]
      else AwaitingQuit [GoNotification, GoLoop])"

fun started :: "main_outcome \<Rightarrow> goroutine list" where
  "started (Panic msg) = []"
| "started (AwaitingQuit gs) = gs"
| "started (Cancelled gs ls) = gs"

section \<open>Notions of the specification\<close>

text \<open>
  "URL-path-safe", in the weakest reading: the text stays inside one path segment of the
  URL. RFC 3986 ends a path segment at a slash, a question mark or a number sign.
\<close>

definition url_path_safe :: "string \<Rightarrow> bool" where
  "url_path_safe s \<longleftrightarrow> CHR ''/'' \<notin> set s \<and> CHR ''?'' \<notin> set s \<and> CHR ''#'' \<notin> set s"

text \<open>Signed order on the cursor values of a run.\<close>

definition nondecreasing :: "int64 list \<Rightarrow> bool" where
  "nondecreasing cs = sorted (map sint cs)"

text \<open>
  The feed honours the cursor on a run: no fetch answers with a first event that starts
  before the cursor the fetch was made with.
\<close>

fun feed_honours_cursor ::
  "(string \<Rightarrow> error + Response) \<Rightarrow> loop_state \<Rightarrow> loop_input list \<Rightarrow> bool" where
  "feed_honours_cursor unmarshal s [] = True"
| "feed_honours_cursor unmarshal s (CtxDone # rest) = True"
| "feed_honours_cursor unmarshal s (TickerC http now # rest) =
     ((case query unmarshal http (lastTs s) of
         Inr (Some r) \<Rightarrow>
           (case Data r of [] \<Rightarrow> True | e # es \<Rightarrow> sint (lastTs s) \<le> sint (StartAt e))
       | _ \<Rightarrow> True)
      \<and> feed_honours_cursor unmarshal (tick unmarshal http now s) rest)"

section \<open>Example inputs\<close>

text \<open>
  An event of magnitude 5.2 at 30 N, 103 E, 10 km deep, starting at the given instant;
  the floats are given by their bits.
\<close>

definition example_event :: "int64 \<Rightarrow> Event" where
  "example_event t =
     \<lparr>EventId = 1, Updates = 1,
      Latitude = Float64frombits 0x403E000000000000,
      Longitude = Float64frombits 0x4059C00000000000,
      Depth = Float64frombits 0x4024000000000000,
      Epicenter = ''Sichuan'', StartAt = t, UpdateAt = t,
      Magnitude = Float64frombits 0x4014CCCCCCCCCCCD,
      InsideNet = 0, Sations = 0\<rparr>"

text \<open>
  A decoder defined on three bodies, written with their meaning instead of their JSON:
  no event, one event that started at 1700000000000 ms, one that started at
  1699998200000 ms (thirty minutes earlier). Every other body is a decoding error.
\<close>

definition example_unmarshal :: "string \<Rightarrow> error + Response" where
  "example_unmarshal data =
     (if data = ''none'' then Inr \<lparr>Code = 0, Message = ''ok'', Data = []\<rparr>
      else if data = ''one'' then
        Inr \<lparr>Code = 0, Message = ''ok'', Data = [example_event 1700000000000]\<rparr>
      else if data = ''earlier'' then
        Inr \<lparr>Code = 0, Message = ''ok'', Data = [example_event 1699998200000]\<rparr>
      else Inl (Error ''unexpected end of JSON input''))"

text \<open>A world that answers every GET in the same way.\<close>

definition answer :: "http_outcome \<Rightarrow> string \<Rightarrow> http_outcome" where
  "answer out url = out"

text \<open>The clock ten minutes after 1700000000000 ms, in nanoseconds.\<close>

definition example_now :: int where
  "example_now = 1700000600000 * 1000000"

text \<open>Renderers that print the example event, whatever they are given.\<close>

definition example_renderers :: renderers where
  "example_renderers =
     \<lparr>Format = (\<lambda>tz layout t. ''2023-11-15 06:13:20''),
      verb_1f = (\<lambda>x. if x = Float64frombits 0x4014CCCCCCCCCCCD then ''5.2'' else ''10.0''),
      verb_f = (\<lambda>x. if x = Float64frombits 0x4059C00000000000 then ''103.000000''
                      else ''30.000000'')\<rparr>"

definition example_world :: "http_outcome \<Rightarrow> world" where
  "example_world out =
     \<lparr>LoadLocation = (\<lambda>name. if name = ''Asia/Shanghai'' then Inr (Location name)
                               else Inl (Error ''unknown time zone'')),
      get = answer out\<rparr>"

section \<open>Facts about the Poller\<close>

lemma Since_le_30_Minute: "Since now t \<le> 30 * Minute \<longleftrightarrow> now - t \<le> 30 * Minute"
  by (simp add: Since_def Sub_def maxDuration_def minDuration_def Minute_def Second_def)

lemma query_Body:
  "http (feed_url ts) = Body d \<Longrightarrow> query unmarshal http ts =
     (case unmarshal d of Inl err \<Rightarrow> Inl err | Inr resp \<Rightarrow> Inr (Some resp))"
  by (simp add: query_def)

lemma query_Inl_iff:
  "query unmarshal http ts = Inl err \<longleftrightarrow>
     http (feed_url ts) = NewRequestErr err \<or> http (feed_url ts) = DoErr err \<or>
     http (feed_url ts) = ReadAllErr err \<or>
     (\<exists>d. http (feed_url ts) = Body d \<and> unmarshal d = Inl err)"
  by (auto simp: query_def split: http_outcome.splits sum.splits)

lemma query_never_nil: "query unmarshal http ts \<noteq> Inr None"
  by (simp add: query_def split: http_outcome.splits sum.splits)

lemma tick_Cons:
  assumes "http (feed_url (lastTs s)) = Body d" and "unmarshal d = Inr r" and "Data r = e # es"
  shows "tick unmarshal http now s =
     (if now - UnixMilli (StartAt e) \<le> 30 * Minute
      then s\<lparr>logs := logs s @ [FoundTheEvents (Suc (length es)) (e # es)],
             lastTs := StartAt e, sent := sent s @ [e]\<rparr>
      else s\<lparr>lastTs := StartAt e,
             logs := logs s @ [FoundTheEvents (Suc (length es)) (e # es),
                               OutOfDate (UnixMilli (StartAt e)) e]\<rparr>)"
  using assms by (simp add: tick_def query_Body Let_def Since_le_30_Minute)

lemma tick_Nil:
  assumes "http (feed_url (lastTs s)) = Body d" and "unmarshal d = Inr r" and "Data r = []"
  shows "tick unmarshal http now s = s"
  using assms by (simp add: tick_def query_Body)

lemma tick_Inl:
  "query unmarshal http (lastTs s) = Inl err \<Longrightarrow>
     tick unmarshal http now s = s\<lparr>logs := logs s @ [QueryData err]\<rparr>"
  by (simp add: tick_def)

text \<open>Whatever the fetch gives, a tick leaves the cursor or moves it to a first event.\<close>

lemma lastTs_tick:
  "lastTs (tick unmarshal http now s) =
     (case query unmarshal http (lastTs s) of
        Inr (Some r) \<Rightarrow> (case Data r of [] \<Rightarrow> lastTs s | e # es \<Rightarrow> StartAt e)
      | _ \<Rightarrow> lastTs s)"
  by (simp add: tick_def Let_def split: sum.splits option.splits list.splits)

text \<open>A tick on which the feed honours the cursor does not move it back.\<close>

lemma tick_honoured:
  assumes "case query unmarshal http (lastTs s) of
             Inr (Some r) \<Rightarrow>
               (case Data r of [] \<Rightarrow> True | e # es \<Rightarrow> sint (lastTs s) \<le> sint (StartAt e))
           | _ \<Rightarrow> True"
  shows "sint (lastTs s) \<le> sint (lastTs (tick unmarshal http now s))"
  using assms
  by (simp add: lastTs_tick split: sum.splits option.splits list.splits)

lemma cursors_bounded_below:
  "feed_honours_cursor unmarshal s inputs \<Longrightarrow>
     \<forall>c \<in> set (cursors unmarshal s inputs). sint (lastTs s) \<le> sint c"
proof (induction unmarshal s inputs rule: cursors.induct)
  case (1 unmarshal s)
  then show ?case by simp
next
  case (2 unmarshal s rest)
  then show ?case by simp
next
  case (3 unmarshal s http now rest)
  from "3.prems" have step: "sint (lastTs s) \<le> sint (lastTs (tick unmarshal http now s))"
    and later: "feed_honours_cursor unmarshal (tick unmarshal http now s) rest"
    by (simp_all add: tick_honoured)
  from "3.IH" [OF later] step show ?case
    by auto
qed

text \<open>The cursors of two example runs: the same two answers in either order.\<close>

lemma example_cursors:
  "cursors example_unmarshal \<lparr>lastTs = 0, sent = [], logs = []\<rparr>
      [TickerC (answer (Body ''one'')) example_now,
       TickerC (answer (Body ''earlier'')) example_now]
   = [0, 1700000000000, 1699998200000]"
  by (simp add: lastTs_tick query_def answer_def example_unmarshal_def example_event_def)

lemma example_cursors_rev:
  "cursors example_unmarshal \<lparr>lastTs = 0, sent = [], logs = []\<rparr>
      [TickerC (answer (Body ''earlier'')) example_now,
       TickerC (answer (Body ''one'')) example_now]
   = [0, 1699998200000, 1700000000000]"
  by (simp add: lastTs_tick query_def answer_def example_unmarshal_def example_event_def)

section \<open>The claims about the Poller\<close>

text \<open>
  C1. A fetch succeeds, its list of events is not empty, and its first event started at
  most 30 minutes before the clock reading (or after it). Then the tick sends exactly
  one event on the channel, the first of the list, and the cursor is that event's
  \<^verbatim>\<open>startAt\<close>.
\<close>

theorem fresh_first_event_is_sent:
  assumes "http (feed_url (lastTs s)) = Body d" and "unmarshal d = Inr r"
    and "Data r = e # es"
    and "now - UnixMilli (StartAt e) \<le> 30 * Minute"
  shows "sent (tick unmarshal http now s) = sent s @ [e]
       \<and> lastTs (tick unmarshal http now s) = StartAt e"
  using assms by (simp add: tick_Cons)

theorem fresh_first_event_is_sent_witness:
  "example_now - UnixMilli 1700000000000 \<le> 30 * Minute
   \<and> sent (tick example_unmarshal (answer (Body ''one'')) example_now
           \<lparr>lastTs = 0, sent = [], logs = []\<rparr>) = [example_event 1700000000000]
   \<and> lastTs (tick example_unmarshal (answer (Body ''one'')) example_now
           \<lparr>lastTs = 0, sent = [], logs = []\<rparr>) = 1700000000000"
  using fresh_first_event_is_sent [of "answer (Body ''one'')"
      "\<lparr>lastTs = 0, sent = [], logs = []\<rparr>" "''one''" example_unmarshal
      "\<lparr>Code = 0, Message = ''ok'', Data = [example_event 1700000000000]\<rparr>"
      "example_event 1700000000000" "[]" example_now]
  by (simp add: answer_def example_unmarshal_def example_event_def example_now_def
      UnixMilli_def Minute_def Second_def)

text \<open>
  C2. A fetch succeeds, its list of events is not empty, and its first event started
  more than 30 minutes before the clock reading. Then the cursor is that event's
  \<^verbatim>\<open>startAt\<close> all the same, and nothing is sent on the channel.
\<close>

theorem stale_first_event_is_not_sent:
  assumes "http (feed_url (lastTs s)) = Body d" and "unmarshal d = Inr r"
    and "Data r = e # es"
    and "now - UnixMilli (StartAt e) > 30 * Minute"
  shows "sent (tick unmarshal http now s) = sent s
       \<and> lastTs (tick unmarshal http now s) = StartAt e"
  using assms by (simp add: tick_Cons)

theorem stale_first_event_is_not_sent_witness:
  "example_now - UnixMilli 1699998200000 > 30 * Minute
   \<and> sent (tick example_unmarshal (answer (Body ''earlier'')) example_now
           \<lparr>lastTs = 0, sent = [], logs = []\<rparr>) = []
   \<and> lastTs (tick example_unmarshal (answer (Body ''earlier'')) example_now
           \<lparr>lastTs = 0, sent = [], logs = []\<rparr>) = 1699998200000"
  using stale_first_event_is_not_sent [of "answer (Body ''earlier'')"
      "\<lparr>lastTs = 0, sent = [], logs = []\<rparr>" "''earlier''" example_unmarshal
      "\<lparr>Code = 0, Message = ''ok'', Data = [example_event 1699998200000]\<rparr>"
      "example_event 1699998200000" "[]" example_now]
  by (simp add: answer_def example_unmarshal_def example_event_def example_now_def
      UnixMilli_def Minute_def Second_def)

text \<open>
  C3. A fetch succeeds and its list of events is empty. Then the tick changes nothing:
  the cursor keeps its value and nothing is sent on the channel.
\<close>

theorem empty_response_is_skipped:
  assumes "http (feed_url (lastTs s)) = Body d" and "unmarshal d = Inr r"
    and "Data r = []"
  shows "tick unmarshal http now s = s
       \<and> lastTs (tick unmarshal http now s) = lastTs s
       \<and> sent (tick unmarshal http now s) = sent s"
  using assms by (simp add: tick_Nil)

theorem empty_response_is_skipped_witness:
  "tick example_unmarshal (answer (Body ''none'')) example_now
      \<lparr>lastTs = 0, sent = [], logs = []\<rparr> = \<lparr>lastTs = 0, sent = [], logs = []\<rparr>"
  using empty_response_is_skipped [of "answer (Body ''none'')"
      "\<lparr>lastTs = 0, sent = [], logs = []\<rparr>" "''none''" example_unmarshal
      "\<lparr>Code = 0, Message = ''ok'', Data = []\<rparr>" example_now]
  by (simp add: answer_def example_unmarshal_def)

text \<open>
  C4. The fetch of a tick fails: the request cannot be built, the transport fails, the
  body cannot be read, or the body cannot be decoded. Then the error is logged, the
  cursor keeps its value, nothing is sent on the channel, and the loop goes on with
  what its \<^verbatim>\<open>select\<close> receives next.
\<close>

theorem failed_fetch_is_skipped:
  assumes "http (feed_url (lastTs s)) = NewRequestErr err
         \<or> http (feed_url (lastTs s)) = DoErr err
         \<or> http (feed_url (lastTs s)) = ReadAllErr err
         \<or> (\<exists>d. http (feed_url (lastTs s)) = Body d \<and> unmarshal d = Inl err)"
  shows "tick unmarshal http now s = s\<lparr>logs := logs s @ [QueryData err]\<rparr>
       \<and> lastTs (tick unmarshal http now s) = lastTs s
       \<and> sent (tick unmarshal http now s) = sent s
       \<and> loop_from unmarshal s (TickerC http now # rest) =
           loop_from unmarshal (s\<lparr>logs := logs s @ [QueryData err]\<rparr>) rest"
proof -
  from assms have "query unmarshal http (lastTs s) = Inl err"
    by (simp only: query_Inl_iff)
  then have "tick unmarshal http now s = s\<lparr>logs := logs s @ [QueryData err]\<rparr>"
    by (rule tick_Inl)
  then show ?thesis by simp
qed

theorem failed_fetch_is_skipped_witness:
  "loop_from example_unmarshal \<lparr>lastTs = 0, sent = [], logs = []\<rparr>
      [TickerC (answer (DoErr (Error ''timeout''))) example_now,
       TickerC (answer (Body ''{'')) example_now,
       TickerC (answer (Body ''one'')) example_now]
   = (Running,
      \<lparr>lastTs = 1700000000000, sent = [example_event 1700000000000],
       logs = [QueryData (Error ''timeout''),
               QueryData (Error ''unexpected end of JSON input''),
               FoundTheEvents 1 [example_event 1700000000000]]\<rparr>)"
proof -
  let ?s0 = "\<lparr>lastTs = 0, sent = [], logs = []\<rparr>"
  let ?s1 = "\<lparr>lastTs = 0, sent = [], logs = [QueryData (Error ''timeout'')]\<rparr>"
  let ?s2 = "\<lparr>lastTs = 0, sent = [],
              logs = [QueryData (Error ''timeout''),
                      QueryData (Error ''unexpected end of JSON input'')]\<rparr>"
  have 1: "loop_from example_unmarshal ?s0
      [TickerC (answer (DoErr (Error ''timeout''))) example_now,
       TickerC (answer (Body ''{'')) example_now,
       TickerC (answer (Body ''one'')) example_now]
    = loop_from example_unmarshal ?s1
      [TickerC (answer (Body ''{'')) example_now,
       TickerC (answer (Body ''one'')) example_now]"
    using failed_fetch_is_skipped [of "answer (DoErr (Error ''timeout''))" ?s0
        "Error ''timeout''" example_unmarshal example_now]
    by (simp add: answer_def)
  have 2: "loop_from example_unmarshal ?s1
      [TickerC (answer (Body ''{'')) example_now,
       TickerC (answer (Body ''one'')) example_now]
    = loop_from example_unmarshal ?s2 [TickerC (answer (Body ''one'')) example_now]"
    using failed_fetch_is_skipped [of "answer (Body ''{'')" ?s1
        "Error ''unexpected end of JSON input''" example_unmarshal example_now]
    by (simp add: answer_def example_unmarshal_def)
  have 3: "tick example_unmarshal (answer (Body ''one'')) example_now ?s2
    = \<lparr>lastTs = 1700000000000, sent = [example_event 1700000000000],
       logs = [QueryData (Error ''timeout''),
               QueryData (Error ''unexpected end of JSON input''),
               FoundTheEvents 1 [example_event 1700000000000]]\<rparr>"
    using tick_Cons [of "answer (Body ''one'')" ?s2 "''one''" example_unmarshal
        "\<lparr>Code = 0, Message = ''ok'', Data = [example_event 1700000000000]\<rparr>"
        "example_event 1700000000000" "[]" example_now]
    by (simp add: answer_def example_unmarshal_def example_event_def example_now_def
        UnixMilli_def Minute_def Second_def)
  have 4: "loop_from example_unmarshal ?s2 [TickerC (answer (Body ''one'')) example_now]
    = (Running, tick example_unmarshal (answer (Body ''one'')) example_now ?s2)"
    by simp
  show ?thesis
    unfolding 1 2 4 3 ..
qed

text \<open>
  C5, as the code has it. The cursor never decreases over a run on which the feed
  honours the cursor, that is, never answers with a first event that starts before the
  cursor of the fetch. The loop itself compares nothing: each update sets the cursor to
  the first event's \<^verbatim>\<open>startAt\<close>, whatever it is.
\<close>

theorem cursor_nondecreasing_when_feed_honours_it:
  "feed_honours_cursor unmarshal s inputs \<Longrightarrow> nondecreasing (cursors unmarshal s inputs)"
proof (induction unmarshal s inputs rule: cursors.induct)
  case (1 unmarshal s)
  then show ?case by (simp add: nondecreasing_def)
next
  case (2 unmarshal s rest)
  then show ?case by (simp add: nondecreasing_def)
next
  case (3 unmarshal s http now rest)
  from "3.prems" have later: "feed_honours_cursor unmarshal (tick unmarshal http now s) rest"
    by simp
  have "\<forall>c \<in> set (cursors unmarshal s (TickerC http now # rest)). sint (lastTs s) \<le> sint c"
    using "3.prems" by (rule cursors_bounded_below)
  with "3.IH" [OF later] show ?case
    by (simp add: nondecreasing_def)
qed

theorem cursor_nondecreasing_when_feed_honours_it_witness:
  "feed_honours_cursor example_unmarshal \<lparr>lastTs = 0, sent = [], logs = []\<rparr>
      [TickerC (answer (Body ''earlier'')) example_now,
       TickerC (answer (Body ''one'')) example_now]
   \<and> nondecreasing [0, 1699998200000, 1700000000000]"
proof -
  have h: "feed_honours_cursor example_unmarshal \<lparr>lastTs = 0, sent = [], logs = []\<rparr>
      [TickerC (answer (Body ''earlier'')) example_now,
       TickerC (answer (Body ''one'')) example_now]"
    by (simp add: lastTs_tick query_def answer_def example_unmarshal_def example_event_def)
  from cursor_nondecreasing_when_feed_honours_it [OF h] h show ?thesis
    by (simp only: example_cursors_rev simp_thms)
qed

text \<open>
  C5, as the claim states it, fails: the feed answers the second fetch with an event
  that started thirty minutes before the one of the first fetch, and the cursor goes
  back from 1700000000000 to 1699998200000.
\<close>

theorem cursor_regresses_counterexample:
  "\<not> nondecreasing
       (cursors example_unmarshal \<lparr>lastTs = 0, sent = [], logs = []\<rparr>
          [TickerC (answer (Body ''one'')) example_now,
           TickerC (answer (Body ''earlier'')) example_now])"
  unfolding example_cursors by (simp add: nondecreasing_def)

text \<open>
  C10. The loop compares no event with the cursor. A fetch succeeds, its first event
  has the cursor's value as \<^verbatim>\<open>startAt\<close> and is at most 30 minutes old: the event is sent,
  and the cursor stays. So when the next fetch has the same first event, still at most
  30 minutes old, the two ticks send the event twice.
\<close>

theorem event_at_cursor_is_sent_again:
  assumes "http (feed_url (lastTs s)) = Body d" and "unmarshal d = Inr r"
    and "Data r = e # es"
    and "StartAt e = lastTs s"
    and "now - UnixMilli (StartAt e) \<le> 30 * Minute"
  shows "sent (tick unmarshal http now s) = sent s @ [e]
       \<and> lastTs (tick unmarshal http now s) = lastTs s
       \<and> (\<forall>http' d' r' es' now'.
            http' (feed_url (lastTs s)) = Body d' \<and> unmarshal d' = Inr r'
            \<and> Data r' = e # es' \<and> now' - UnixMilli (StartAt e) \<le> 30 * Minute
            \<longrightarrow> sent (snd (loop_from unmarshal s [TickerC http now, TickerC http' now']))
                  = sent s @ [e, e])"
proof -
  have first: "sent (tick unmarshal http now s) = sent s @ [e]"
    and same: "lastTs (tick unmarshal http now s) = lastTs s"
    using assms by (simp_all add: tick_Cons)
  have "sent (tick unmarshal http' now' (tick unmarshal http now s)) = sent s @ [e, e]"
    if "http' (feed_url (lastTs s)) = Body d'" and "unmarshal d' = Inr r'"
      and "Data r' = e # es'" and "now' - UnixMilli (StartAt e) \<le> 30 * Minute"
    for http' d' r' es' now'
    using that first same
    by (simp add: tick_Cons [where s = "tick unmarshal http now s" and d = d' and r = r'
          and e = e and es = es'])
  with first same show ?thesis
    by simp
qed

theorem event_at_cursor_is_sent_again_witness:
  "StartAt (example_event 1700000000000) = 1700000000000
   \<and> example_now - UnixMilli 1700000000000 \<le> 30 * Minute
   \<and> sent (tick example_unmarshal (answer (Body ''one'')) example_now
           \<lparr>lastTs = 1700000000000, sent = [example_event 1700000000000], logs = []\<rparr>)
       = [example_event 1700000000000, example_event 1700000000000]
   \<and> sent (snd (loop_from example_unmarshal
           \<lparr>lastTs = 1700000000000, sent = [example_event 1700000000000], logs = []\<rparr>
           [TickerC (answer (Body ''one'')) example_now,
            TickerC (answer (Body ''one'')) (example_now + 3 * Second)]))
       = [example_event 1700000000000, example_event 1700000000000,
          example_event 1700000000000]"
proof -
  let ?s = "\<lparr>lastTs = 1700000000000, sent = [example_event 1700000000000], logs = []\<rparr>"
  let ?h = "answer (Body ''one'')"
  let ?r = "\<lparr>Code = 0, Message = ''ok'', Data = [example_event 1700000000000]\<rparr>"
  have h1: "?h (feed_url (lastTs ?s)) = Body ''one''"
    by (simp add: answer_def)
  have h2: "example_unmarshal ''one'' = Inr ?r"
    by (simp add: example_unmarshal_def)
  have h3: "Data ?r = example_event 1700000000000 # []"
    by simp
  have h4: "StartAt (example_event 1700000000000) = lastTs ?s"
    by (simp add: example_event_def)
  have h5: "example_now - UnixMilli (StartAt (example_event 1700000000000)) \<le> 30 * Minute"
    by (simp add: example_event_def example_now_def UnixMilli_def Minute_def Second_def)
  have h6: "(example_now + 3 * Second) - UnixMilli (StartAt (example_event 1700000000000))
      \<le> 30 * Minute"
    by (simp add: example_event_def example_now_def UnixMilli_def Minute_def Second_def)
  note inst = event_at_cursor_is_sent_again [of ?h ?s "''one''" example_unmarshal ?r
      "example_event 1700000000000" "[]" example_now, OF h1 h2 h3 h4 h5]
  from inst have a: "sent (tick example_unmarshal ?h example_now ?s)
      = [example_event 1700000000000, example_event 1700000000000]"
    by simp
  from inst h1 h2 h3 h6 have b: "sent (snd (loop_from example_unmarshal ?s
      [TickerC ?h example_now, TickerC ?h (example_now + 3 * Second)]))
      = sent ?s @ [example_event 1700000000000, example_event 1700000000000]"
    by blast
  from a b h4 h5 show ?thesis
    by simp
qed

section \<open>Facts about the Notifier\<close>

lemma fn_tz_error:
  "LoadLocation w ''Asia/Shanghai'' = Inl err \<Longrightarrow> fn lib key w event s = (Some err, s)"
  by (simp add: fn_def)

lemma fn_tz:
  "LoadLocation w ''Asia/Shanghai'' = Inr tz \<Longrightarrow>
     fn lib key w event s =
       (case get w (push_url lib key tz event) of
          NewRequestErr err \<Rightarrow>
            (Some err, s\<lparr>requested := requested s @ [push_url lib key tz event]\<rparr>)
        | DoErr err \<Rightarrow>
            (Some err, s\<lparr>requested := requested s @ [push_url lib key tz event]\<rparr>)
        | ReadAllErr err \<Rightarrow>
            (Some err, s\<lparr>requested := requested s @ [push_url lib key tz event]\<rparr>)
        | Body data \<Rightarrow>
            (None, s\<lparr>requested := requested s @ [push_url lib key tz event],
                      nlogs := nlogs s @ [NotificationSuccessfully data]\<rparr>))"
  by (simp add: fn_def Let_def split: http_outcome.splits)

lemma requested_fn:
  "LoadLocation w ''Asia/Shanghai'' = Inr tz \<Longrightarrow>
     requested (snd (fn lib key w event s)) = requested s @ [push_url lib key tz event]"
  by (simp add: fn_tz split: http_outcome.splits)

lemma url_path_safe_append [simp]:
  "url_path_safe (xs @ ys) \<longleftrightarrow> url_path_safe xs \<and> url_path_safe ys"
  by (auto simp: url_path_safe_def)

lemma labels_path_safe [simp]:
  "url_path_safe has_quake" "url_path_safe magnitude_quake_happened"
  "url_path_safe place_label" "url_path_safe east_longitude_label"
  "url_path_safe north_latitude_label" "url_path_safe depth_label"
  "url_path_safe kilometres"
  by (simp_all add: url_path_safe_def has_quake_def magnitude_quake_happened_def
      place_label_def east_longitude_label_def north_latitude_label_def depth_label_def
      kilometres_def)

text \<open>An event that is dispatched in the example world.\<close>

lemma example_dispatch:
  "fn example_renderers ''KEY'' (example_world (Body ''ok'')) event
      \<lparr>requested = us, nlogs = ls\<rparr>
   = (None, \<lparr>requested = us @ [push_url example_renderers ''KEY''
                                   (Location ''Asia/Shanghai'') event],
             nlogs = ls @ [NotificationSuccessfully ''ok'']\<rparr>)"
  by (simp add: fn_tz [where tz = "Location ''Asia/Shanghai''"] example_world_def answer_def)

section \<open>The claims about the Notifier and the start-up\<close>

text \<open>
  C6. For every event that the Notifier receives and for which the zone
  \<^verbatim>\<open>Asia/Shanghai\<close> is loaded, the request is made for the URL of the title and the body,
  where the title contains the event's \<^verbatim>\<open>startAt\<close> rendered in that zone with the layout
  \<^verbatim>\<open>2006-01-02 15:04:05\<close> and the magnitude printed with \<^verbatim>\<open>%.1f\<close>, and the body contains
  the epicenter name, the longitude and the latitude printed with \<^verbatim>\<open>%f\<close>, and the depth
  printed with \<^verbatim>\<open>%.1f\<close>.
\<close>

theorem message_contains_the_event:
  assumes "LoadLocation w ''Asia/Shanghai'' = Inr tz"
  shows "requested (snd (fn lib key w event s))
           = requested s
             @ [''https://api.day.app/'' @ key @ ''/'' @ title lib tz event @ ''/''
                  @ body lib event]
       \<and> sublist (Format lib tz ''2006-01-02 15:04:05'' (UnixMilli (StartAt event)))
           (title lib tz event)
       \<and> sublist (verb_1f lib (Magnitude event)) (title lib tz event)
       \<and> sublist (Epicenter event) (body lib event)
       \<and> sublist (verb_f lib (Longitude event)) (body lib event)
       \<and> sublist (verb_f lib (Latitude event)) (body lib event)
       \<and> sublist (verb_1f lib (Depth event)) (body lib event)"
proof -
  have "requested (snd (fn lib key w event s))
      = requested s
        @ [''https://api.day.app/'' @ key @ ''/'' @ title lib tz event @ ''/'' @ body lib event]"
    using assms by (simp add: requested_fn push_url_def)
  moreover have "sublist (Format lib tz ''2006-01-02 15:04:05'' (UnixMilli (StartAt event)))
      (title lib tz event)"
    by (simp add: title_def DateTime_def)
  moreover have "sublist (verb_1f lib (Magnitude event)) (title lib tz event)"
    unfolding title_def by (metis sublist_appendI append.assoc)
  moreover have "sublist (Epicenter event) (body lib event)"
    unfolding body_def by (rule sublist_appendI)
  moreover have "sublist (verb_f lib (Longitude event)) (body lib event)"
    unfolding body_def by (metis sublist_appendI append.assoc)
  moreover have "sublist (verb_f lib (Latitude event)) (body lib event)"
    unfolding body_def by (metis sublist_appendI append.assoc)
  moreover have "sublist (verb_1f lib (Depth event)) (body lib event)"
    unfolding body_def by (metis sublist_appendI append.assoc)
  ultimately show ?thesis
    by simp
qed

theorem message_contains_the_event_witness:
  "LoadLocation (example_world (Body ''ok'')) ''Asia/Shanghai'' = Inr (Location ''Asia/Shanghai'')
   \<and> requested (snd (fn example_renderers ''KEY'' (example_world (Body ''ok''))
         (example_event 1700000000000) \<lparr>requested = [], nlogs = []\<rparr>))
       = [''https://api.day.app/KEY/2023-11-15 06:13:20'' @ has_quake @ ''5.2''
            @ magnitude_quake_happened @ ''/'' @ place_label @ ''Sichuan''
            @ east_longitude_label @ ''103.000000'' @ north_latitude_label @ ''30.000000''
            @ depth_label @ ''10.0'' @ kilometres]"
  using message_contains_the_event [of "example_world (Body ''ok'')"
      "Location ''Asia/Shanghai''" example_renderers "''KEY''" "example_event 1700000000000"
      "\<lparr>requested = [], nlogs = []\<rparr>"]
  by (simp add: example_world_def example_renderers_def example_event_def title_def body_def
      DateTime_def)

text \<open>
  C7. The dispatch of an event fails: the zone cannot be loaded, the request cannot be
  built, the transport fails, or the body cannot be read. Then \<^verbatim>\<open>fn\<close> returns the error,
  at most one request has been made for the event, the Notifier logs the error and
  goes on with what its \<^verbatim>\<open>select\<close> receives next, from a state that holds nothing of
  the event but that log line and that request.
\<close>

theorem failed_dispatch_is_dropped:
  assumes "LoadLocation w ''Asia/Shanghai'' = Inl err
         \<or> (\<exists>tz. LoadLocation w ''Asia/Shanghai'' = Inr tz
               \<and> (get w (push_url lib key tz event) = NewRequestErr err
                  \<or> get w (push_url lib key tz event) = DoErr err
                  \<or> get w (push_url lib key tz event) = ReadAllErr err))"
  shows "fst (fn lib key w event s) = Some err
       \<and> nlogs (snd (fn lib key w event s)) = nlogs s
       \<and> (requested (snd (fn lib key w event s)) = requested s
          \<or> (\<exists>url. requested (snd (fn lib key w event s)) = requested s @ [url]))
       \<and> notification_from lib key s (Ch event w # rest)
           = notification_from lib key
               ((snd (fn lib key w event s))\<lparr>nlogs := nlogs s @ [SendNotificationFailed err]\<rparr>)
               rest"
  using assms
proof (elim disjE exE conjE)
  assume "LoadLocation w ''Asia/Shanghai'' = Inl err"
  then have "fn lib key w event s = (Some err, s)"
    by (rule fn_tz_error)
  then show ?thesis by simp
next
  fix tz
  assume "LoadLocation w ''Asia/Shanghai'' = Inr tz"
    and "get w (push_url lib key tz event) = NewRequestErr err"
  then have "fn lib key w event s
      = (Some err, s\<lparr>requested := requested s @ [push_url lib key tz event]\<rparr>)"
    by (simp add: fn_tz)
  then show ?thesis by simp
next
  fix tz
  assume "LoadLocation w ''Asia/Shanghai'' = Inr tz"
    and "get w (push_url lib key tz event) = DoErr err"
  then have "fn lib key w event s
      = (Some err, s\<lparr>requested := requested s @ [push_url lib key tz event]\<rparr>)"
    by (simp add: fn_tz)
  then show ?thesis by simp
next
  fix tz
  assume "LoadLocation w ''Asia/Shanghai'' = Inr tz"
    and "get w (push_url lib key tz event) = ReadAllErr err"
  then have "fn lib key w event s
      = (Some err, s\<lparr>requested := requested s @ [push_url lib key tz event]\<rparr>)"
    by (simp add: fn_tz)
  then show ?thesis by simp
qed

theorem failed_dispatch_is_dropped_witness:
  "notification example_renderers ''KEY''
      [Ch (example_event 1699998200000) (example_world (DoErr (Error ''timeout''))),
       Ch (example_event 1700000000000) (example_world (Body ''ok''))]
   = (Running,
      \<lparr>requested =
         [push_url example_renderers ''KEY'' (Location ''Asia/Shanghai'')
            (example_event 1699998200000),
          push_url example_renderers ''KEY'' (Location ''Asia/Shanghai'')
            (example_event 1700000000000)],
       nlogs = [SendNotificationFailed (Error ''timeout''),
                NotificationSuccessfully ''ok'']\<rparr>)"
proof -
  let ?w = "example_world (DoErr (Error ''timeout''))"
  let ?s0 = "\<lparr>requested = [], nlogs = []\<rparr>"
  let ?u = "push_url example_renderers ''KEY'' (Location ''Asia/Shanghai'')
      (example_event 1699998200000)"
  have tz: "LoadLocation ?w ''Asia/Shanghai'' = Inr (Location ''Asia/Shanghai'')"
    by (simp add: example_world_def)
  have do_err: "get ?w ?u = DoErr (Error ''timeout'')"
    by (simp add: example_world_def answer_def)
  have hyp: "LoadLocation ?w ''Asia/Shanghai'' = Inl (Error ''timeout'')
       \<or> (\<exists>tz. LoadLocation ?w ''Asia/Shanghai'' = Inr tz
             \<and> (get ?w (push_url example_renderers ''KEY'' tz (example_event 1699998200000))
                   = NewRequestErr (Error ''timeout'')
                \<or> get ?w (push_url example_renderers ''KEY'' tz (example_event 1699998200000))
                   = DoErr (Error ''timeout'')
                \<or> get ?w (push_url example_renderers ''KEY'' tz (example_event 1699998200000))
                   = ReadAllErr (Error ''timeout'')))"
    using tz do_err by blast
  have state: "snd (fn example_renderers ''KEY'' ?w (example_event 1699998200000) ?s0)
      = \<lparr>requested = [?u], nlogs = []\<rparr>"
    using tz do_err by (simp add: fn_tz)
  have "notification_from example_renderers ''KEY'' ?s0
      [Ch (example_event 1699998200000) ?w,
       Ch (example_event 1700000000000) (example_world (Body ''ok''))]
    = notification_from example_renderers ''KEY''
        \<lparr>requested = [?u], nlogs = [SendNotificationFailed (Error ''timeout'')]\<rparr>
        [Ch (example_event 1700000000000) (example_world (Body ''ok''))]"
    using failed_dispatch_is_dropped [of ?w "Error ''timeout''" example_renderers "''KEY''"
        "example_event 1699998200000" ?s0, OF hyp] state
    by simp
  then show ?thesis
    by (simp add: notification_def example_dispatch)
qed

text \<open>
  C8, as the code has it. The title and the body are put into the URL as they are,
  after \<^verbatim>\<open>https://api.day.app/\<close>, the key and a slash, and with a slash between them;
  nothing is escaped. So the title stays inside one path segment exactly when the
  rendered time and magnitude hold no slash, question mark or number sign, and the body
  exactly when the epicenter name and the rendered longitude, latitude and depth hold
  none.
\<close>

theorem alert_text_is_not_escaped:
  "push_url lib key tz event
     = ''https://api.day.app/'' @ key @ ''/'' @ title lib tz event @ ''/'' @ body lib event
   \<and> (url_path_safe (title lib tz event) \<longleftrightarrow>
        url_path_safe (Format lib tz DateTime (UnixMilli (StartAt event)))
        \<and> url_path_safe (verb_1f lib (Magnitude event)))
   \<and> (url_path_safe (body lib event) \<longleftrightarrow>
        url_path_safe (Epicenter event)
        \<and> url_path_safe (verb_f lib (Longitude event))
        \<and> url_path_safe (verb_f lib (Latitude event))
        \<and> url_path_safe (verb_1f lib (Depth event)))"
  by (simp add: push_url_def title_def body_def)

theorem alert_text_is_not_escaped_witness:
  "url_path_safe (title example_renderers (Location ''Asia/Shanghai'')
      (example_event 1700000000000))
   \<and> url_path_safe (body example_renderers (example_event 1700000000000))"
  using alert_text_is_not_escaped [of example_renderers "''KEY''" "Location ''Asia/Shanghai''"
      "example_event 1700000000000"]
  by (simp add: example_renderers_def example_event_def url_path_safe_def)

text \<open>
  C8, as the claim states it, fails: an epicenter name with a slash in it is put into
  the URL with its slash, and the body is no longer one path segment.
\<close>

theorem body_with_slash_counterexample:
  "\<not> url_path_safe
       (body example_renderers ((example_event 1700000000000)\<lparr>Epicenter := ''a/b''\<rparr>))"
  by (simp add: body_def url_path_safe_def)

text \<open>
  C9. With an empty key \<^verbatim>\<open>main\<close> panics and has started neither goroutine; with any
  other key it starts the Notifier and the Poller.
\<close>

theorem empty_key_panics_before_start:
  "(key = '''' \<longrightarrow>
      main key interrupt = Panic ''key should have a value''
      \<and> started (main key interrupt) = [])
   \<and> (key \<noteq> '''' \<longrightarrow> started (main key interrupt) = [GoNotification, GoLoop])"
  by (simp add: main_def)

theorem empty_key_panics_before_start_witness:
  "main '''' False = Panic ''key should have a value''
   \<and> started (main '''' False) = []
   \<and> started (main ''KEY'' False) = [GoNotification, GoLoop]"
  using empty_key_panics_before_start [of "''''" False]
    empty_key_panics_before_start [of "''KEY''" False]
  by simp

end
